theory Spec2Isabelle
  imports Complex_Main "HOL-Library.AList" "HOL-Library.Log_Nat"
begin

section \<open>Ride documents, captains and the store\<close>

text \<open>
  The ride schema (\<open>models/ride.model.js\<close>) restricts \<open>status\<close> to six strings; the
  stored status is therefore a datatype, and \<open>status_name\<close> gives the string of each
  value. A status that arrives in a request is an arbitrary string.
\<close>

datatype ride_status = Requested | Accepted | OnTheWay | InProgress | Completed | Cancelled

fun status_name :: "ride_status \<Rightarrow> string" where
  "status_name Requested = ''requested''"
| "status_name Accepted = ''accepted''"
| "status_name OnTheWay = ''on-the-way''"
| "status_name InProgress = ''in-progress''"
| "status_name Completed = ''completed''"
| "status_name Cancelled = ''cancelled''"

definition status_of_name :: "string \<Rightarrow> ride_status option" where
  "status_of_name s =
     (if s = ''requested'' then Some Requested
      else if s = ''accepted'' then Some Accepted
      else if s = ''on-the-way'' then Some OnTheWay
      else if s = ''in-progress'' then Some InProgress
      else if s = ''completed'' then Some Completed
      else if s = ''cancelled'' then Some Cancelled
      else None)"

datatype vehicle = Auto | Car | Moto

text \<open>
  A ride document. Identifiers are natural numbers, dates are milliseconds, amounts
  are finite doubles (rational numbers, see the section on fares). The addresses and
  coordinates of pickup and destination are not read by any transition and are left
  out. \<open>endRide\<close> also assigns \<open>paymentMethod\<close> and \<open>tip\<close>, which the schema does not
  declare, so they are not part of the stored document.
\<close>

record ride =
  user :: nat
  captain :: "nat option"
  vehicleType :: vehicle
  status :: ride_status
  fare_amount :: rat
  otp :: string
  estimatedArrivalTime :: "nat option"
  actualArrivalTime :: "nat option"
  actualEndTime :: "nat option"
  cancellationReason :: "string option"

record captain_doc =
  socketId :: "string option"
  isAvailable :: bool
  lastSeen :: nat

text \<open>
  The two collections, keyed by document id. Population of references and the
  notifications emitted after a write are outside the model.
\<close>

record db =
  rides :: "(nat \<times> ride) list"
  captains :: "(nat \<times> captain_doc) list"

definition findById :: "(nat \<times> 'a) list \<Rightarrow> nat \<Rightarrow> 'a option" where
  "findById coll i = map_of coll i"

text \<open>
  \<open>captainModel.findByIdAndUpdate\<close>: no document is created when the id is unknown.
  Captain documents have no validator that a transition could fail.
  \<open>release_captain\<close> is the update that sets \<open>isAvailable: true\<close> on \<open>ride.captain\<close>.
  The \<open>cancelled\<close> case guards it with \<open>if (ride.captain)\<close>; the \<open>completed\<close> case does
  not, but a ride in progress has a captain. Without one the model writes nothing.
\<close>

definition findByIdAndUpdate :: "nat \<Rightarrow> (captain_doc \<Rightarrow> captain_doc) \<Rightarrow> db \<Rightarrow> db" where
  "findByIdAndUpdate cid f d =
     (case findById (captains d) cid of
        None \<Rightarrow> d
      | Some c \<Rightarrow> d\<lparr>captains := AList.update cid (f c) (captains d)\<rparr>)"

definition release_captain :: "nat option \<Rightarrow> nat \<Rightarrow> db \<Rightarrow> db" where
  "release_captain c now d =
     (case c of
        None \<Rightarrow> d
      | Some cid \<Rightarrow> findByIdAndUpdate cid (\<lambda>k. k\<lparr>isAvailable := True, lastSeen := now\<rparr>) d)"

section \<open>Requests and errors\<close>

datatype user_type = User | Captain

record actor =
  uid :: nat
  utype :: user_type

text \<open>
  The \<open>data\<close> object of a status request. A field is absent (\<open>None\<close>) or a string;
  a string is truthy when it is not empty.
\<close>

record req_data =
  req_otp :: "string option"
  req_reason :: "string option"

definition truthy :: "string option \<Rightarrow> bool" where
  "truthy v = (case v of None \<Rightarrow> False | Some s \<Rightarrow> s \<noteq> [])"

text \<open>
  One constructor per message of the source. \<open>InvalidTransition cur att\<close> is
  \<open>Invalid status transition from cur to att\<close>; \<open>OnlyCaptain s\<close> is the refusal of a
  captain-only transition to \<open>s\<close>; \<open>TypeError\<close> is a property read on an undefined
  \<open>data\<close>; \<open>ValidationError\<close> is the \<open>Ride validation failed\<close> of a save;
  \<open>Failed op e\<close> is the service wrapper \<open>Failed to op ride: e\<close>.
\<close>

datatype error =
    InvalidRideData
  | RideNotFound
  | InvalidTransition ride_status string
  | OnlyCaptain ride_status
  | InvalidOTP
  | TypeError
  | ValidationError
  | CaptainNotFound
  | NotFoundOrAlreadyAccepted
  | CaptainNotAvailable
  | NotFoundOrWrongState
  | NotFoundOrNotInProgress
  | NotFoundOrCannotCancel
  | Failed string error
  | ApiError nat string
  | RandomIntRange
  | RouteRetriesExhausted

section \<open>Saving a ride\<close>

text \<open>
  The validators the schema declares. The \<open>otp\<close> path must match \<open>/^\d{6}$/\<close>, the fare
  amount has \<open>min: 0\<close>, and an estimated arrival time, when the document has one, must
  satisfy \<open>v > new Date()\<close>. Required paths, types and enums are enforced by the types
  of the record.
\<close>

definition is_digit :: "char \<Rightarrow> bool" where
  "is_digit c = (c \<in> set ''0123456789'')"

definition otp_validator :: "string \<Rightarrow> bool" where
  "otp_validator v = (length v = 6 \<and> list_all is_digit v)"

definition eta_validator :: "nat \<Rightarrow> nat option \<Rightarrow> bool" where
  "eta_validator now eta = (case eta of None \<Rightarrow> True | Some v \<Rightarrow> v > now)"

definition validate :: "nat \<Rightarrow> ride \<Rightarrow> bool" where
  "validate now r =
     (eta_validator now (estimatedArrivalTime r) \<and> otp_validator (otp r) \<and> fare_amount r \<ge> 0)"

text \<open>
  \<open>ride.save()\<close> at time \<open>now\<close>: the document is validated as a whole, also the paths
  this request did not touch; a document that fails is not written and the call
  throws. \<open>insert_ride\<close> is the write itself.
\<close>

definition insert_ride :: "nat \<Rightarrow> ride \<Rightarrow> db \<Rightarrow> db" where
  "insert_ride rid r d = d\<lparr>rides := AList.update rid r (rides d)\<rparr>"

definition save_ride :: "nat \<Rightarrow> nat \<Rightarrow> ride \<Rightarrow> db \<Rightarrow> (error + ride) \<times> db" where
  "save_ride now rid r d =
     (if validate now r then (Inr r, insert_ride rid r d) else (Inl ValidationError, d))"

section \<open>The status handlers\<close>

text \<open>
  \<open>validTransitions\<close>, the literal declared in \<open>socket.on('ride:status')\<close> and again,
  with the same rows, in \<open>updateRideStatus\<close>.
\<close>

fun validTransitions :: "ride_status \<Rightarrow> string list" where
  "validTransitions Requested = [''accepted'', ''cancelled'']"
| "validTransitions Accepted = [''on-the-way'', ''cancelled'']"
| "validTransitions OnTheWay = [''in-progress'', ''cancelled'']"
| "validTransitions InProgress = [''completed'', ''cancelled'']"
| "validTransitions Completed = []"
| "validTransitions Cancelled = []"

text \<open>
  The \<open>switch (status)\<close> of both handlers, entered after \<open>ride.status = status\<close>, and the
  \<open>ride.save()\<close> that follows it; the cases are the same in the two sources. A \<open>throw\<close>
  (an early \<open>return res.status\<close> in the HTTP handler) inside a case leaves before any
  write. The cases \<open>accepted\<close>, \<open>completed\<close> and \<open>cancelled\<close> write the captain before
  the ride is saved, so a save that fails leaves that write behind.
\<close>

definition switch_status ::
  "actor \<Rightarrow> nat \<Rightarrow> nat \<Rightarrow> ride \<Rightarrow> ride_status \<Rightarrow> req_data option \<Rightarrow> db \<Rightarrow> (error + ride) \<times> db" where
  "switch_status a now rid r s data d =
     (let r1 = r\<lparr>status := s\<rparr> in
      case s of
        Accepted \<Rightarrow>
          if utype a \<noteq> Captain then (Inl (OnlyCaptain s), d)
          else
            let r2 = r1\<lparr>captain := Some (uid a)\<rparr>;
                d1 = findByIdAndUpdate (uid a) (\<lambda>k. k\<lparr>isAvailable := False, lastSeen := now\<rparr>) d
            in save_ride now rid r2 d1
      | OnTheWay \<Rightarrow>
          if utype a \<noteq> Captain then (Inl (OnlyCaptain s), d)
          else
            let r2 = r1\<lparr>estimatedArrivalTime := Some (now + 15 * 60 * 1000)\<rparr>
            in save_ride now rid r2 d
      | InProgress \<Rightarrow>
          if utype a \<noteq> Captain then (Inl (OnlyCaptain s), d)
          else (case data of
                  None \<Rightarrow> (Inl TypeError, d)
                | Some dt \<Rightarrow>
                    if truthy (req_otp dt) \<and> Some (otp r1) \<noteq> req_otp dt then (Inl InvalidOTP, d)
                    else
                      let r2 = r1\<lparr>actualArrivalTime := Some now\<rparr>
                      in save_ride now rid r2 d)
      | Completed \<Rightarrow>
          if utype a \<noteq> Captain then (Inl (OnlyCaptain s), d)
          else
            let r2 = r1\<lparr>actualEndTime := Some now\<rparr>;
                d1 = release_captain (captain r2) now d
            in save_ride now rid r2 d1
      | Cancelled \<Rightarrow>
          (case data of
             None \<Rightarrow> (Inl TypeError, d)
           | Some dt \<Rightarrow>
               let r2 = r1\<lparr>cancellationReason :=
                           (if truthy (req_reason dt) then req_reason dt
                            else Some ''Cancelled by user'')\<rparr>;
                   d1 = release_captain (captain r2) now d
               in save_ride now rid r2 d1)
      | Requested \<Rightarrow> save_ride now rid r1 d)"

text \<open>
  \<open>socket.on('ride:status')\<close>. A missing (falsy) ride id is \<open>None\<close>, a falsy status the
  empty string. A string that passed the table is one of the six names, so the branch
  for a string that names no status is never reached.
\<close>

definition ride_status_handler ::
  "actor \<Rightarrow> nat \<Rightarrow> nat option \<Rightarrow> string \<Rightarrow> req_data option \<Rightarrow> db \<Rightarrow> (error + ride) \<times> db" where
  "ride_status_handler a now rideId st data d =
     (case rideId of
        None \<Rightarrow> (Inl InvalidRideData, d)
      | Some rid \<Rightarrow>
          if st = [] then (Inl InvalidRideData, d)
          else (case findById (rides d) rid of
                  None \<Rightarrow> (Inl RideNotFound, d)
                | Some r \<Rightarrow>
                    if st \<notin> set (validTransitions (status r))
                    then (Inl (InvalidTransition (status r) st), d)
                    else (case status_of_name st of
                            None \<Rightarrow> (Inl ValidationError, d)
                          | Some s \<Rightarrow> switch_status a now rid r s data d)))"

text \<open>\<open>updateRideStatus\<close> of the ride controller: the ride id is a route parameter.\<close>

definition updateRideStatus ::
  "actor \<Rightarrow> nat \<Rightarrow> nat \<Rightarrow> string \<Rightarrow> req_data option \<Rightarrow> db \<Rightarrow> (error + ride) \<times> db" where
  "updateRideStatus a now rid st data d =
     (case findById (rides d) rid of
        None \<Rightarrow> (Inl RideNotFound, d)
      | Some r \<Rightarrow>
          if st \<notin> set (validTransitions (status r))
          then (Inl (InvalidTransition (status r) st), d)
          else (case status_of_name st of
                  None \<Rightarrow> (Inl ValidationError, d)
                | Some s \<Rightarrow> switch_status a now rid r s data d))"

text \<open>The status code of the response \<open>updateRideStatus\<close> sends for an error.\<close>

fun http_code :: "error \<Rightarrow> nat" where
  "http_code RideNotFound = 404"
| "http_code (InvalidTransition c s) = 400"
| "http_code (OnlyCaptain s) = 403"
| "http_code InvalidOTP = 400"
| "http_code e = 500"

section \<open>The ride service\<close>

text \<open>
  Each service function looks the ride up with \<open>findOne\<close> under a filter, throws when
  nothing matches, and rethrows every error, also that of a failed save, under its
  own prefix.
\<close>

definition rethrow :: "string \<Rightarrow> (error + ride) \<times> db \<Rightarrow> (error + ride) \<times> db" where
  "rethrow op res = (case fst res of Inl e \<Rightarrow> (Inl (Failed op e), snd res) | Inr r \<Rightarrow> res)"

definition confirmRide :: "nat \<Rightarrow> nat \<Rightarrow> nat \<Rightarrow> db \<Rightarrow> (error + ride) \<times> db" where
  "confirmRide rid cid now d =
     (case findById (rides d) rid of
        None \<Rightarrow> (Inl (Failed ''confirm'' NotFoundOrAlreadyAccepted), d)
      | Some r \<Rightarrow>
          if status r \<noteq> Requested then (Inl (Failed ''confirm'' NotFoundOrAlreadyAccepted), d)
          else (case findById (captains d) cid of
                  None \<Rightarrow> (Inl (Failed ''confirm'' CaptainNotAvailable), d)
                | Some c \<Rightarrow>
                    if \<not> isAvailable c then (Inl (Failed ''confirm'' CaptainNotAvailable), d)
                    else
                      let r2 = r\<lparr>captain := Some cid, status := Accepted,
                                 estimatedArrivalTime := Some (now + 10 * 60000)\<rparr>
                      in case save_ride now rid r2 d of
                           (Inl e, d1) \<Rightarrow> (Inl (Failed ''confirm'' e), d1)
                         | (Inr r3, d1) \<Rightarrow>
                             (Inr r3, findByIdAndUpdate cid
                                        (\<lambda>k. k\<lparr>isAvailable := False, lastSeen := now\<rparr>) d1)))"

definition startRide :: "nat \<Rightarrow> string \<Rightarrow> nat \<Rightarrow> nat \<Rightarrow> db \<Rightarrow> (error + ride) \<times> db" where
  "startRide rid code cid now d =
     (case findById (rides d) rid of
        None \<Rightarrow> (Inl (Failed ''start'' NotFoundOrWrongState), d)
      | Some r \<Rightarrow>
          if captain r = Some cid \<and> status r = Accepted
          then
            if otp r \<noteq> code then (Inl (Failed ''start'' InvalidOTP), d)
            else
              let r2 = r\<lparr>status := InProgress, actualArrivalTime := Some now\<rparr>
              in rethrow ''start'' (save_ride now rid r2 d)
          else (Inl (Failed ''start'' NotFoundOrWrongState), d))"

definition endRide :: "nat \<Rightarrow> nat \<Rightarrow> nat \<Rightarrow> db \<Rightarrow> (error + ride) \<times> db" where
  "endRide rid cid now d =
     (case findById (rides d) rid of
        None \<Rightarrow> (Inl (Failed ''end'' NotFoundOrNotInProgress), d)
      | Some r \<Rightarrow>
          if captain r = Some cid \<and> status r = InProgress
          then
            let r2 = r\<lparr>status := Completed, actualEndTime := Some now\<rparr>
            in rethrow ''end'' (save_ride now rid r2 d)
          else (Inl (Failed ''end'' NotFoundOrNotInProgress), d))"

definition cancelRide :: "nat \<Rightarrow> nat \<Rightarrow> string option \<Rightarrow> nat \<Rightarrow> db \<Rightarrow> (error + ride) \<times> db" where
  "cancelRide rid userId reason now d =
     (case findById (rides d) rid of
        None \<Rightarrow> (Inl (Failed ''cancel'' NotFoundOrCannotCancel), d)
      | Some r \<Rightarrow>
          if user r = userId \<and> status r \<in> {Requested, Accepted}
          then
            let r2 = r\<lparr>status := Cancelled, cancellationReason := reason\<rparr>
            in rethrow ''cancel'' (save_ride now rid r2 d)
          else (Inl (Failed ''cancel'' NotFoundOrCannotCancel), d))"

section \<open>Socket connection of a captain\<close>

text \<open>
  The \<open>Captain\<close> branch of the authentication middleware, and the \<open>disconnect\<close>
  handler for a captain's socket.
\<close>

definition socket_connect :: "nat \<Rightarrow> string \<Rightarrow> nat \<Rightarrow> db \<Rightarrow> (error + actor) \<times> db" where
  "socket_connect cid sid now d =
     (case findById (captains d) cid of
        None \<Rightarrow> (Inl CaptainNotFound, d)
      | Some c \<Rightarrow>
          (Inr \<lparr>uid = cid, utype = Captain\<rparr>,
           findByIdAndUpdate cid
             (\<lambda>k. k\<lparr>socketId := Some sid, isAvailable := True, lastSeen := now\<rparr>) d))"

definition socket_disconnect :: "actor \<Rightarrow> nat \<Rightarrow> db \<Rightarrow> db" where
  "socket_disconnect a now d =
     (if utype a = Captain
      then findByIdAndUpdate (uid a)
             (\<lambda>k. k\<lparr>socketId := None, isAvailable := False, lastSeen := now\<rparr>) d
      else d)"

section \<open>Sample documents\<close>

text \<open>
  A ride with id 7 of rider 1 and a captain with id 2, used at concrete inputs.
  \<open>late_db\<close> holds the same ride on the way, with the estimated arrival the
  \<open>on-the-way\<close> transition gave it at time 5. In \<open>two_rides_db\<close> the captain holds
  ride 7, in progress, and a second ride 8.
\<close>

definition sample_ride :: "ride_status \<Rightarrow> nat option \<Rightarrow> ride" where
  "sample_ride s c =
     \<lparr>user = 1, captain = c, vehicleType = Auto, status = s, fare_amount = 100,
      otp = ''123456'', estimatedArrivalTime = None, actualArrivalTime = None,
      actualEndTime = None, cancellationReason = None\<rparr>"

definition sample_db :: "ride_status \<Rightarrow> nat option \<Rightarrow> bool \<Rightarrow> db" where
  "sample_db s c av =
     \<lparr>rides = [(7, sample_ride s c)],
      captains = [(2, \<lparr>socketId = Some ''sock'', isAvailable = av, lastSeen = 0\<rparr>)]\<rparr>"

definition late_ride :: ride where
  "late_ride = (sample_ride OnTheWay (Some 2))\<lparr>estimatedArrivalTime := Some 900005\<rparr>"

definition late_db :: db where
  "late_db =
     \<lparr>rides = [(7, late_ride)],
      captains = [(2, \<lparr>socketId = Some ''sock'', isAvailable = False, lastSeen = 5\<rparr>)]\<rparr>"

definition two_rides_db :: db where
  "two_rides_db =
     \<lparr>rides = [(7, sample_ride InProgress (Some 2)), (8, sample_ride Accepted (Some 2))],
      captains = [(2, \<lparr>socketId = Some ''sock'', isAvailable = False, lastSeen = 0\<rparr>)]\<rparr>"

definition no_reason :: req_data where
  "no_reason = \<lparr>req_otp = None, req_reason = None\<rparr>"

definition sample_captain :: actor where
  "sample_captain = \<lparr>uid = 2, utype = Captain\<rparr>"

section \<open>The transition graph\<close>

text \<open>
  The edges as the specification lists them: the chain from \<open>Requested\<close> to
  \<open>Completed\<close>, \<open>InProgress\<close> to \<open>Cancelled\<close>, and a direct cancellation from
  \<open>Requested\<close> and \<open>Accepted\<close> only.
\<close>

definition claimed_edge :: "ride_status \<Rightarrow> ride_status \<Rightarrow> bool" where
  "claimed_edge c s =
     ((c, s) \<in> set [(Requested, Accepted), (Accepted, OnTheWay), (OnTheWay, InProgress),
                    (InProgress, Completed), (InProgress, Cancelled),
                    (Requested, Cancelled), (Accepted, Cancelled)])"

text \<open>The same edges and the cancellation of a ride that is on the way.\<close>

definition table_edge :: "ride_status \<Rightarrow> ride_status \<Rightarrow> bool" where
  "table_edge c s =
     ((c, s) \<in> set [(Requested, Accepted), (Accepted, OnTheWay), (OnTheWay, InProgress),
                    (InProgress, Completed), (InProgress, Cancelled),
                    (Requested, Cancelled), (Accepted, Cancelled), (OnTheWay, Cancelled)])"

text \<open>A requested status string names a state that \<open>table_edge\<close> reaches from \<open>c\<close>.\<close>

definition attempt_allowed :: "ride_status \<Rightarrow> string \<Rightarrow> bool" where
  "attempt_allowed c st =
     (case status_of_name st of None \<Rightarrow> False | Some s \<Rightarrow> table_edge c s)"

section \<open>Numbers\<close>

text \<open>
  JavaScript numbers are IEEE 754 doubles. A finite double is a rational number, and
  \<open>+\<close>, \<open>-\<close>, \<open>*\<close> and \<open>/\<close> return the double nearest to the exact result, a tie going
  to the even significand: \<open>fl\<close>, with 53 bits of precision and gradual underflow
  below \<open>2^-1022\<close>. \<open>NaN\<close> and the infinities are not values of this model, and
  overflow is not modelled: the numbers below are distances, durations and fares.
  \<open>binade x\<close> is the exponent \<open>e\<close> with \<open>2^e \<le> |x| < 2^(e+1)\<close>.
\<close>

definition pow2 :: "int \<Rightarrow> rat" where
  "pow2 e = (if e \<ge> 0 then 2 ^ nat e else 1 / 2 ^ nat (- e))"

definition binade :: "rat \<Rightarrow> int" where
  "binade x =
     (let (p, q) = quotient_of \<bar>x\<bar>;
          e = bitlen p - bitlen q
      in if \<bar>x\<bar> < pow2 e then e - 1 else e)"

definition round_half_even :: "rat \<Rightarrow> int" where
  "round_half_even q =
     (let f = \<lfloor>q\<rfloor>;
          r = q - of_int f
      in if r < 1 / 2 then f
         else if r > 1 / 2 then f + 1
         else if even f then f else f + 1)"

definition fl :: "rat \<Rightarrow> rat" where
  "fl x =
     (if x = 0 then 0
      else
        let e = max (binade x) (- 1022);
            u = pow2 (e - 52)
        in of_int (round_half_even (x / u)) * u)"

text \<open>
  \<open>Math.round\<close> returns the integer nearest to its argument, a half going upwards;
  it is exact. \<open>Math.max\<close> and \<open>Math.min\<close> are \<open>max\<close> and \<open>min\<close>.
\<close>

definition Math_round :: "rat \<Rightarrow> rat" where
  "Math_round x = of_int \<lfloor>x + 1 / 2\<rfloor>"

section \<open>Fares\<close>

text \<open>
  The three tables and the surge rule; \<open>getFare\<close> and \<open>createRide\<close> each declare
  them, with the same numbers. The hour is \<open>new Date().getHours()\<close>. The literal
  \<open>1.3\<close> is the double nearest to 13/10.
\<close>

fun baseFare :: "vehicle \<Rightarrow> rat" where
  "baseFare Auto = 30"
| "baseFare Car = 50"
| "baseFare Moto = 20"

fun perKmRate :: "vehicle \<Rightarrow> rat" where
  "perKmRate Auto = 10"
| "perKmRate Car = 15"
| "perKmRate Moto = 8"

fun perMinuteRate :: "vehicle \<Rightarrow> rat" where
  "perMinuteRate Auto = 2"
| "perMinuteRate Car = 3"
| "perMinuteRate Moto = 3 / 2"

definition surgeMultiplier :: "nat \<Rightarrow> rat" where
  "surgeMultiplier currentHour =
     (if (currentHour \<ge> 7 \<and> currentHour \<le> 9) \<or> (currentHour \<ge> 17 \<and> currentHour \<le> 19)
      then 3 / 2
      else if currentHour \<ge> 22 \<or> currentHour \<le> 5 then fl (13 / 10)
      else 1)"

text \<open>
  \<open>getFare\<close>, from the result of the route lookup on: the amount of one vehicle class
  for a route's \<open>distance.value\<close> in metres and \<open>duration.value\<close> in seconds, both
  finite doubles. Every operation of the source rounds, in the source's order. A route
  whose distance or duration is not a number puts \<open>NaN\<close> into the formula and every
  amount is \<open>NaN\<close>; such a route is not an input of this model.
\<close>

definition getFare :: "rat \<Rightarrow> rat \<Rightarrow> nat \<Rightarrow> vehicle \<Rightarrow> rat" where
  "getFare distance duration currentHour v =
     (let fare = Math_round (fl (fl (fl (baseFare v
                    + fl (fl (distance / 1000) * perKmRate v))
                    + fl (fl (duration / 60) * perMinuteRate v)) * surgeMultiplier currentHour));
          fare1 = max fare (baseFare v * 2);
          fare2 = min fare1 (baseFare v * 10)
      in fl (Math_round (fl (fare2 / 10)) * 10))"

text \<open>
  The fare of \<open>createRide\<close>, computed again from its own route details; the
  \<open>fareAmount\<close> handed over by the controller is not read.
\<close>

definition finalFare :: "rat \<Rightarrow> rat \<Rightarrow> nat \<Rightarrow> vehicle \<Rightarrow> rat" where
  "finalFare distance duration currentHour v =
     (let distanceInKm = fl (distance / 1000);
          durationInMinutes = fl (duration / 60);
          effectiveDistance = max distanceInKm 1;
          effectiveDuration = max durationInMinutes 5;
          fare = Math_round (fl (fl (fl (baseFare v
                    + fl (effectiveDistance * perKmRate v))
                    + fl (effectiveDuration * perMinuteRate v)) * surgeMultiplier currentHour));
          minFare = baseFare v * 2;
          maxFare = baseFare v * 10
      in min (max fare minFare) maxFare)"

text \<open>
  \<open>createRide\<close>, from the route details on: the document it creates under a fresh
  id, with the generated code. The validation of the arguments and the retry loop
  around \<open>getRouteDetails\<close> come before. The created document has no estimated
  arrival time, a fare that is not negative and the code of \<open>generateOTP(6)\<close>, so it
  passes the validators (\<open>createRide_valid\<close>) and \<open>create\<close> is the write itself.
\<close>

definition createRide ::
  "nat \<Rightarrow> nat \<Rightarrow> vehicle \<Rightarrow> rat \<Rightarrow> rat \<Rightarrow> nat \<Rightarrow> string \<Rightarrow> db \<Rightarrow> ride \<times> db" where
  "createRide rid usr v distance duration currentHour code d =
     (let r = \<lparr>user = usr, captain = None, vehicleType = v, status = Requested,
               fare_amount = finalFare distance duration currentHour v, otp = code,
               estimatedArrivalTime = None, actualArrivalTime = None,
               actualEndTime = None, cancellationReason = None\<rparr>
      in (r, insert_ride rid r d))"

text \<open>
  The fare as the specification words it, in exact arithmetic: distance and duration
  raised to their minimums, the formula, the clamp, then rounding to the nearest ten.
\<close>

definition spec_quote :: "rat \<Rightarrow> rat \<Rightarrow> nat \<Rightarrow> vehicle \<Rightarrow> rat" where
  "spec_quote distance duration currentHour v =
     (let km = max (distance / 1000) 1;
          minutes = max (duration / 60) 5;
          surge = (if (currentHour \<ge> 7 \<and> currentHour \<le> 9) \<or> (currentHour \<ge> 17 \<and> currentHour \<le> 19)
                   then 3 / 2
                   else if currentHour \<ge> 22 \<or> currentHour \<le> 5 then 13 / 10
                   else 1);
          fare = Math_round ((baseFare v + km * perKmRate v + minutes * perMinuteRate v) * surge);
          clamped = min (max fare (2 * baseFare v)) (10 * baseFare v)
      in Math_round (clamped / 10) * 10)"

definition multiple_of_10 :: "rat \<Rightarrow> bool" where
  "multiple_of_10 x = (of_int \<lfloor>x / 10\<rfloor> * 10 = x)"

section \<open>Verification codes\<close>

text \<open>
  \<open>Number.prototype.toString\<close> on an integer: its decimal digits, most significant
  first, after a minus sign when it is negative.
\<close>

definition digit_char :: "nat \<Rightarrow> char" where
  "digit_char n = ''0123456789'' ! (n mod 10)"

function digits :: "nat \<Rightarrow> string" where
  "digits n = (if n < 10 then [digit_char n] else digits (n div 10) @ [digit_char (n mod 10)])"
  by pat_completeness auto
termination
  by (relation "measure id") auto

declare digits.simps [simp del]

definition toString :: "int \<Rightarrow> string" where
  "toString i = (if i < 0 then CHR ''-'' # digits (nat (- i)) else digits (nat i))"



text \<open>
  \<open>crypto.randomInt(min, max)\<close> of Node's \<open>crypto\<close> module is the random source of both
  generators and their only input. It throws unless \<open>min < max\<close>, both are safe
  integers and the range is below \<open>2^48\<close>; otherwise it returns the integer it drew.
  The source itself is outside the program: it is the parameter \<open>crypto_randomInt\<close>
  of the generators, the function from the arguments of the call to the integer
  returned.
\<close>

definition randomInt_accepts :: "int \<Rightarrow> int \<Rightarrow> bool" where
  "randomInt_accepts mn mx =
     (mn < mx \<and> mx - mn \<le> 2 ^ 48 - 1 \<and> \<bar>mn\<bar> \<le> 2 ^ 53 - 1 \<and> \<bar>mx\<bar> \<le> 2 ^ 53 - 1)"

text \<open>
  \<open>generateOTP\<close> of the helpers. A length of zero makes \<open>Math.pow(10, length - 1)\<close> a
  fraction, which \<open>randomInt\<close> refuses; every exception becomes the \<open>ApiError\<close>.
\<close>

definition generateOTP :: "(int \<Rightarrow> int \<Rightarrow> int) \<Rightarrow> nat \<Rightarrow> error + string" where
  "generateOTP crypto_randomInt len =
     (if len = 0 then Inl (ApiError 500 ''Error generating OTP'')
      else
        let mn = 10 ^ (len - 1);
            mx = 10 ^ len - 1
        in if randomInt_accepts mn (mx + 1)
           then Inr (toString (crypto_randomInt mn (mx + 1)))
           else Inl (ApiError 500 ''Error generating OTP''))"

text \<open>\<open>getOtp\<close> of the ride service: the same draw, with no handler around it.\<close>

definition getOtp :: "(int \<Rightarrow> int \<Rightarrow> int) \<Rightarrow> nat \<Rightarrow> error + string" where
  "getOtp crypto_randomInt num =
     (if num = 0 then Inl RandomIntRange
      else if randomInt_accepts (10 ^ (num - 1)) (10 ^ num)
           then Inr (toString (crypto_randomInt (10 ^ (num - 1)) (10 ^ num)))
           else Inl RandomIntRange)"

text \<open>A source that answers the call of the generators with 256789.\<close>

definition sample_source :: "int \<Rightarrow> int \<Rightarrow> int" where
  "sample_source mn mx = mn + 156789"

section \<open>Routes\<close>

text \<open>
  A pickup or destination object: its address and the array
  \<open>coordinates.coordinates\<close>, longitude first.
\<close>

record place =
  address :: string
  coordinates :: "rat list"

text \<open>\<open>validateCoordinates\<close> of the helpers.\<close>

definition validateCoordinates :: "rat list \<Rightarrow> bool" where
  "validateCoordinates cs =
     (case cs of
        [longitude, latitude] \<Rightarrow>
          longitude \<ge> - 180 \<and> longitude \<le> 180 \<and> latitude \<ge> - 90 \<and> latitude \<le> 90
      | _ \<Rightarrow> False)"

text \<open>
  The route cache of \<open>getRouteDetails\<close>, keyed by the joined coordinates of origin and
  destination. A cached value is reduced to its distance and duration; expiry is not
  modelled.
\<close>

type_synonym route_cache = "rat list \<times> rat list \<Rightarrow> (rat \<times> rat) option"

text \<open>
  \<open>getRouteDetails\<close>. The provider's answer to the one request of this call is a
  parameter: \<open>None\<close> when the request fails, times out or returns no usable route,
  otherwise the distance and duration of the first route. The inner \<open>catch\<close> rethrows
  a failure of the provider and the outer one wraps it in the \<open>ApiError\<close> of status
  500; nothing is estimated in its place. The geometry and the steps of the route are
  left out of the result.
\<close>

definition getRouteDetails ::
  "(rat \<times> rat) option \<Rightarrow> route_cache \<Rightarrow> place \<Rightarrow> place
     \<Rightarrow> (error + rat \<times> rat) \<times> route_cache" where
  "getRouteDetails provider cache origin destination =
     (if length (coordinates origin) = 2 \<and> length (coordinates destination) = 2
      then
        let cacheKey = (coordinates origin, coordinates destination) in
        case cache cacheKey of
          Some cachedRoute \<Rightarrow> (Inr cachedRoute, cache)
        | None \<Rightarrow>
            (case provider of
               Some (routeDistance, routeDuration) \<Rightarrow>
                 (Inr (routeDistance, routeDuration),
                  cache(cacheKey \<mapsto> (routeDistance, routeDuration)))
             | None \<Rightarrow>
                 (Inl (ApiError 500 ''Failed to get route details from mapping service.''), cache))
      else (Inl (ApiError 400 ''Origin and destination with valid coordinates are required''),
            cache))"

text \<open>
  The retry loop of \<open>createRide\<close> around \<open>getRouteDetails\<close>. The provider's answers
  are a sequence indexed by the number of the call. A result whose distance or
  duration is falsy (zero) neither leaves the loop nor counts as a retry, so the loop
  need not end: it is a partial function, \<open>None\<close> when it runs forever. The pauses
  between attempts are not modelled.
\<close>

partial_function (option) route_loop ::
  "(nat \<Rightarrow> (rat \<times> rat) option) \<Rightarrow> place \<Rightarrow> place \<Rightarrow> nat \<Rightarrow> nat \<Rightarrow> route_cache
     \<Rightarrow> ((error + rat \<times> rat) \<times> route_cache) option" where
  "route_loop provider pickupObj destinationObj call retryCount cache =
     (if retryCount < 3
      then (case getRouteDetails (provider call) cache pickupObj destinationObj of
              (Inr (routeDistance, routeDuration), cache') \<Rightarrow>
                if routeDistance \<noteq> 0 \<and> routeDuration \<noteq> 0
                then Some (Inr (routeDistance, routeDuration), cache')
                else route_loop provider pickupObj destinationObj (call + 1) retryCount cache'
            | (Inl e, cache') \<Rightarrow>
                if retryCount + 1 = 3
                then Some (Inl (Failed ''create'' RouteRetriesExhausted), cache')
                else route_loop provider pickupObj destinationObj (call + 1) (retryCount + 1) cache')
      else Some (Inl (Failed ''create'' TypeError), cache))"

definition sample_pickup :: place where
  "sample_pickup = \<lparr>address = ''Station Road'', coordinates = [72, 23]\<rparr>"

definition sample_destination :: place where
  "sample_destination = \<lparr>address = ''Airport'', coordinates = [73, 22]\<rparr>"

section \<open>The availability of a captain\<close>

text \<open>
  A captain holds an active ride when some stored ride names that captain and is
  accepted, on the way or in progress (the filter of the \<open>update:location\<close>
  handler). \<open>holds_other_active_ride\<close> leaves one ride id out of the search.
\<close>

definition active_for :: "db \<Rightarrow> nat \<Rightarrow> nat \<Rightarrow> bool" where
  "active_for d cid rid =
     (case findById (rides d) rid of
        None \<Rightarrow> False
      | Some r \<Rightarrow> captain r = Some cid \<and> status r \<in> {Accepted, OnTheWay, InProgress})"

definition holds_active_ride :: "db \<Rightarrow> nat \<Rightarrow> bool" where
  "holds_active_ride d cid = list_ex (active_for d cid) (map fst (rides d))"

definition holds_other_active_ride :: "db \<Rightarrow> nat \<Rightarrow> nat \<Rightarrow> bool" where
  "holds_other_active_ride d cid rid =
     list_ex (\<lambda>k. k \<noteq> rid \<and> active_for d cid k) (map fst (rides d))"

text \<open>
  The invariant of the specification for one captain: the flag is false exactly when
  the captain holds an active ride.
\<close>

definition availability_invariant :: "db \<Rightarrow> nat \<Rightarrow> bool" where
  "availability_invariant d cid =
     (case findById (captains d) cid of
        None \<Rightarrow> True
      | Some c \<Rightarrow> isAvailable c = (\<not> holds_active_ride d cid))"

definition available :: "db \<Rightarrow> nat \<Rightarrow> bool option" where
  "available d cid = map_option isAvailable (findById (captains d) cid)"

section \<open>Writes and saves\<close>

lemma findById_insert_ride: "findById (rides (insert_ride rid r d)) rid = Some r"
  by (simp add: findById_def insert_ride_def update_conv')

lemma findById_insert_ride_other:
  "k \<noteq> rid \<Longrightarrow> findById (rides (insert_ride rid r d)) k = findById (rides d) k"
  by (simp add: findById_def insert_ride_def update_conv')

lemma captains_insert_ride: "captains (insert_ride rid r d) = captains d"
  by (simp add: insert_ride_def)

lemma rides_findByIdAndUpdate: "rides (findByIdAndUpdate cid f d) = rides d"
  by (simp add: findByIdAndUpdate_def split: option.splits)

lemma rides_release_captain: "rides (release_captain c now d) = rides d"
  by (simp add: release_captain_def rides_findByIdAndUpdate split: option.splits)

lemma save_ride_Inr:
  assumes "save_ride now rid r d = (Inr r', d')"
  shows "r' = r \<and> d' = insert_ride rid r d \<and> validate now r"
  using assms by (auto simp: save_ride_def split: if_splits)

lemma save_ride_Inl:
  assumes "save_ride now rid r d = (Inl e, d')"
  shows "e = ValidationError \<and> d' = d \<and> \<not> validate now r"
  using assms by (auto simp: save_ride_def split: if_splits)




section \<open>Completing a ride through the service\<close>

text \<open>
  Claim C5: for a ride in progress that is assigned to the driver, \<open>endRide\<close> moves it
  to \<open>Completed\<close>, sets the actual-end timestamp, and releases the driver (availability
  back to true). On the sample ride, held by captain 2, whom \<open>confirmRide\<close> marked
  unavailable, \<open>endRide\<close> completes the ride and stamps it, and the captain is still
  unavailable afterwards: the service never writes to the captain, while the
  \<open>completed\<close> case of both status handlers does.
\<close>

theorem endRide_keeps_captain_unavailable:
  "fst (endRide 7 2 9 (sample_db InProgress (Some 2) False))
     = Inr ((sample_ride InProgress (Some 2))\<lparr>status := Completed, actualEndTime := Some 9\<rparr>)
   \<and> map_option isAvailable
        (findById (captains (snd (endRide 7 2 9 (sample_db InProgress (Some 2) False)))) 2)
     = Some False"
  by (simp add: endRide_def rethrow_def save_ride_def insert_ride_def validate_def
      eta_validator_def otp_validator_def is_digit_def findById_def sample_db_def
      sample_ride_def Let_def)

section \<open>Starting a ride with a wrong code\<close>

text \<open>
  The claim C6 as stated asks for an invalid-code error on every ride. A ride that is
  on the way, assigned to the calling captain, is not matched by the filter of
  \<open>startRide\<close> (status \<open>accepted\<close> only): a wrong code is answered with the not-found
  error.
\<close>

theorem startRide_counterexample:
  "startRide 7 ''000000'' 2 5 (sample_db OnTheWay (Some 2) False)
     = (Inl (Failed ''start'' NotFoundOrWrongState), sample_db OnTheWay (Some 2) False)
   \<and> otp (sample_ride OnTheWay (Some 2)) \<noteq> ''000000''
   \<and> Failed ''start'' NotFoundOrWrongState \<noteq> Failed ''start'' InvalidOTP"
  by (simp add: startRide_def findById_def sample_db_def sample_ride_def)

text \<open>
  Claim C6, amended: for every stored ride and every supplied code different from the
  ride's stored code, \<open>startRide\<close> fails and leaves the whole store unchanged; the
  error is the invalid-code error when the ride is accepted and assigned to the
  calling captain, and the not-found error otherwise.
\<close>

theorem startRide_wrong_code:
  assumes "findById (rides d) rid = Some r" and "code \<noteq> otp r"
  shows "snd (startRide rid code cid now d) = d
    \<and> fst (startRide rid code cid now d) =
        (if captain r = Some cid \<and> status r = Accepted
         then Inl (Failed ''start'' InvalidOTP)
         else Inl (Failed ''start'' NotFoundOrWrongState))"
  using assms by (auto simp: startRide_def)

theorem startRide_wrong_code_witness:
  "findById (rides (sample_db Accepted (Some 2) False)) 7 = Some (sample_ride Accepted (Some 2))
   \<and> ''000000'' \<noteq> otp (sample_ride Accepted (Some 2))
   \<and> snd (startRide 7 ''000000'' 2 5 (sample_db Accepted (Some 2) False))
       = sample_db Accepted (Some 2) False
   \<and> fst (startRide 7 ''000000'' 2 5 (sample_db Accepted (Some 2) False))
       = Inl (Failed ''start'' InvalidOTP)"
  using startRide_wrong_code [of "sample_db Accepted (Some 2) False" 7
      "sample_ride Accepted (Some 2)" "''000000''" 2 5]
  by (simp add: findById_def sample_db_def sample_ride_def)

section \<open>Cancelling a finished ride\<close>

text \<open>
  Claim C7: for every ride whose status is \<open>Completed\<close> or \<open>Cancelled\<close>, \<open>cancelRide\<close>
  fails with an error, whoever asks, whatever the reason and at any time, and the
  store it leaves is the store it found: the call is not a successful no-op.
\<close>

theorem cancelRide_terminal_fails:
  assumes "findById (rides d) rid = Some r"
    and "status r = Completed \<or> status r = Cancelled"
  shows "cancelRide rid userId reason now d
           = (Inl (Failed ''cancel'' NotFoundOrCannotCancel), d)"
  using assms by (auto simp: cancelRide_def)

theorem cancelRide_terminal_fails_witness:
  "findById (rides (sample_db Completed (Some 2) True)) 7 = Some (sample_ride Completed (Some 2))
   \<and> (status (sample_ride Completed (Some 2)) = Completed
        \<or> status (sample_ride Completed (Some 2)) = Cancelled)
   \<and> cancelRide 7 1 (Some ''late'') 9 (sample_db Completed (Some 2) True)
       = (Inl (Failed ''cancel'' NotFoundOrCannotCancel), sample_db Completed (Some 2) True)"
  using cancelRide_terminal_fails [of "sample_db Completed (Some 2) True" 7
      "sample_ride Completed (Some 2)" 1 "Some ''late''" 9]
  by (simp add: findById_def sample_db_def sample_ride_def)

section \<open>The two status handlers and the transition table\<close>

lemma table_iff: "st \<in> set (validTransitions c) \<longleftrightarrow> attempt_allowed c st"
  by (cases c) (auto simp: attempt_allowed_def status_of_name_def table_edge_def)

lemma status_of_name_name: "status_of_name st = Some s \<Longrightarrow> status_name s = st"
  by (auto simp: status_of_name_def split: if_splits)

lemma switch_status_Inr:
  assumes "switch_status a now rid r s data d = (Inr r', d')"
  shows "status r' = s \<and> findById (rides d') rid = Some r'"
  using assms
  by (cases s)
     (auto simp: switch_status_def Let_def findById_insert_ride
           dest!: save_ride_Inr split: if_splits option.splits)

lemma switch_status_Inl:
  assumes "switch_status a now rid r s data d = (Inl e, d')"
  shows "rides d' = rides d"
  using assms
  by (cases s)
     (auto simp: switch_status_def Let_def rides_findByIdAndUpdate rides_release_captain
           dest!: save_ride_Inl split: if_splits option.splits)

lemma handler_rejects:
  assumes "findById (rides d) rid = Some r" and "\<not> attempt_allowed (status r) st"
  shows "updateRideStatus a now rid st data d = (Inl (InvalidTransition (status r) st), d)"
    and "st \<noteq> [] \<Longrightarrow> ride_status_handler a now (Some rid) st data d = (Inl (InvalidTransition (status r) st), d)"
  using assms by (simp_all add: updateRideStatus_def ride_status_handler_def table_iff)

lemma handler_reduce:
  assumes "findById (rides d) rid = Some r" and "status_of_name st = Some s" and "table_edge (status r) s"
  shows "updateRideStatus a now rid st data d = switch_status a now rid r s data d"
    and "ride_status_handler a now (Some rid) st data d = switch_status a now rid r s data d"
proof -
  have al: "attempt_allowed (status r) st" using assms by (simp add: attempt_allowed_def)
  have ne: "st \<noteq> []" using assms(2) by (auto simp: status_of_name_def split: if_splits)
  show "updateRideStatus a now rid st data d = switch_status a now rid r s data d"
    using assms al by (simp add: updateRideStatus_def table_iff)
  show "ride_status_handler a now (Some rid) st data d = switch_status a now rid r s data d"
    using assms al ne by (simp add: ride_status_handler_def table_iff)
qed

lemma handler_success:
  assumes "res = updateRideStatus a now rid st data d
           \<or> res = ride_status_handler a now (Some rid) st data d"
    and "fst res = Inr r'"
  shows "\<exists>r s. findById (rides d) rid = Some r \<and> status_of_name st = Some s
               \<and> table_edge (status r) s \<and> res = switch_status a now rid r s data d"
  using assms
  by (auto simp: updateRideStatus_def ride_status_handler_def table_iff attempt_allowed_def
           split: option.splits if_splits)

lemma terminal_no_edge: "\<not> attempt_allowed Completed st \<and> \<not> attempt_allowed Cancelled st"
  by (simp add: attempt_allowed_def table_edge_def split: option.splits)

lemma switch_status_moves:
  assumes "status_of_name st = Some s" and "table_edge c s"
    and "res = switch_status a now rid r s data d" and "status r = c"
  shows "case fst res of
           Inr r' \<Rightarrow> table_edge c (status r') \<and> status_name (status r') = st
                     \<and> findById (rides (snd res)) rid = Some r'
         | Inl e \<Rightarrow> rides (snd res) = rides d"
proof (cases "fst res")
  case (Inl e)
  then have "switch_status a now rid r s data d = (Inl e, snd res)"
    using assms(3) by (metis prod.collapse)
  then show ?thesis using Inl switch_status_Inl by simp
next
  case (Inr r')
  then have "switch_status a now rid r s data d = (Inr r', snd res)"
    using assms(3) by (metis prod.collapse)
  from switch_status_Inr [OF this] show ?thesis
    using Inr assms(1,2) status_of_name_name by simp
qed

text \<open>
  Every transition but the cancellation is the captain's: another actor is refused
  before any write.
\<close>

lemma switch_status_only_captain:
  assumes "utype a \<noteq> Captain" and "s \<in> {Accepted, OnTheWay, InProgress, Completed}"
  shows "switch_status a now rid r s data d = (Inl (OnlyCaptain s), d)"
  using assms by (auto simp: switch_status_def)

lemma on_the_way_sets_arrival:
  assumes "utype a = Captain" and "otp_validator (otp r)" and "0 \<le> fare_amount r"
  shows "switch_status a now rid r OnTheWay data d
           = (Inr (r\<lparr>status := OnTheWay, estimatedArrivalTime := Some (now + 900000)\<rparr>),
              insert_ride rid (r\<lparr>status := OnTheWay, estimatedArrivalTime := Some (now + 900000)\<rparr>) d)"
  using assms
  by (simp add: switch_status_def save_ride_def validate_def eta_validator_def Let_def)

text \<open>
  The claim C1 as stated has no edge from \<open>OnTheWay\<close> to \<open>Cancelled\<close>. Both handlers
  accept it: a rider's \<open>cancelled\<close> request on a ride that is on the way succeeds and
  the ride is saved as \<open>Cancelled\<close>.
\<close>

theorem on_the_way_cancel_counterexample:
  "fst (ride_status_handler \<lparr>uid = 1, utype = User\<rparr> 5 (Some 7) ''cancelled'' (Some no_reason)
         (sample_db OnTheWay (Some 2) False))
     = Inr ((sample_ride OnTheWay (Some 2))
             \<lparr>status := Cancelled, cancellationReason := Some ''Cancelled by user''\<rparr>)
   \<and> fst (updateRideStatus \<lparr>uid = 1, utype = User\<rparr> 5 7 ''cancelled'' (Some no_reason)
         (sample_db OnTheWay (Some 2) False))
     = Inr ((sample_ride OnTheWay (Some 2))
             \<lparr>status := Cancelled, cancellationReason := Some ''Cancelled by user''\<rparr>)
   \<and> \<not> claimed_edge OnTheWay Cancelled"
  by (simp add: ride_status_handler_def updateRideStatus_def switch_status_def save_ride_def
      validate_def eta_validator_def otp_validator_def is_digit_def findById_def
      sample_db_def sample_ride_def status_of_name_def no_reason_def truthy_def Let_def
      claimed_edge_def)

text \<open>
  Claim C1, amended: through either handler the status of a stored ride moves only
  along \<open>table_edge\<close>, which is the claimed graph with the edge from \<open>OnTheWay\<close> to
  \<open>Cancelled\<close> added. A request for any other target (for the realtime handler, any
  other non-empty status string) is answered with the invalid-transition error that
  carries the current and the attempted status, and the store is unchanged. A request
  along an edge either succeeds, and then the saved ride has the requested status, or
  fails on a later check, and then no ride document has changed. \<open>Completed\<close> and
  \<open>Cancelled\<close> have no outgoing edge.
\<close>

theorem status_moves_along_table:
  assumes "findById (rides d) rid = Some r"
    and "res = updateRideStatus a now rid st data d
         \<or> st \<noteq> [] \<and> res = ride_status_handler a now (Some rid) st data d"
  shows "(if attempt_allowed (status r) st
          then (case fst res of
                  Inr r' \<Rightarrow> table_edge (status r) (status r') \<and> status_name (status r') = st
                            \<and> findById (rides (snd res)) rid = Some r'
                | Inl e \<Rightarrow> rides (snd res) = rides d)
          else res = (Inl (InvalidTransition (status r) st), d))
       \<and> \<not> attempt_allowed Completed st \<and> \<not> attempt_allowed Cancelled st"
proof (cases "attempt_allowed (status r) st")
  case False
  then show ?thesis
    using assms handler_rejects [OF assms(1) False] terminal_no_edge by auto
next
  case True
  then obtain s where s: "status_of_name st = Some s" "table_edge (status r) s"
    by (auto simp: attempt_allowed_def split: option.splits)
  have "res = switch_status a now rid r s data d"
    using assms(2) handler_reduce [OF assms(1) s] by auto
  from switch_status_moves [OF s this refl] show ?thesis
    using True terminal_no_edge by simp
qed

theorem status_moves_along_table_witness:
  "findById (rides (sample_db Completed (Some 2) True)) 7 = Some (sample_ride Completed (Some 2))
   \<and> ''accepted'' \<noteq> []
   \<and> ride_status_handler sample_captain 5 (Some 7) ''accepted'' (Some no_reason)
        (sample_db Completed (Some 2) True)
       = (Inl (InvalidTransition Completed ''accepted''), sample_db Completed (Some 2) True)
   \<and> findById (rides (sample_db Requested None True)) 7 = Some (sample_ride Requested None)
   \<and> attempt_allowed Requested ''accepted''
   \<and> map_option status
        (findById (rides (snd (updateRideStatus sample_captain 5 7 ''accepted'' (Some no_reason)
                                 (sample_db Requested None True)))) 7)
       = Some Accepted
   \<and> findById (rides late_db) 7 = Some late_ride
   \<and> attempt_allowed (status late_ride) ''cancelled''
   \<and> fst (updateRideStatus sample_captain 2000000 7 ''cancelled'' (Some no_reason) late_db)
       = Inl ValidationError
   \<and> rides (snd (updateRideStatus sample_captain 2000000 7 ''cancelled'' (Some no_reason) late_db))
       = rides late_db"
  using
    status_moves_along_table [of "sample_db Completed (Some 2) True" 7
      "sample_ride Completed (Some 2)" _ sample_captain 5 "''accepted''"
      "Some no_reason", OF _ disjI2, OF _ conjI, OF _ _ refl]
    status_moves_along_table [of "sample_db Requested None True" 7
      "sample_ride Requested None" _ sample_captain 5 "''accepted''"
      "Some no_reason", OF _ disjI1, OF _ refl]
    status_moves_along_table [of late_db 7 late_ride _ sample_captain 2000000 "''cancelled''"
      "Some no_reason", OF _ disjI1, OF _ refl]
  by (simp add: findById_def sample_db_def sample_ride_def sample_captain_def no_reason_def
      late_db_def late_ride_def attempt_allowed_def status_of_name_def table_edge_def
      updateRideStatus_def switch_status_def save_ride_def insert_ride_def validate_def
      eta_validator_def otp_validator_def is_digit_def findByIdAndUpdate_def
      release_captain_def truthy_def Let_def)

section \<open>The verification code in the status handlers\<close>




section \<open>Fares: what holds on both paths\<close>

lemma multiple_of_10_iff: "multiple_of_10 x \<longleftrightarrow> (\<exists>k::int. x = 10 * of_int k)"
proof
  assume "multiple_of_10 x"
  then have "x = 10 * of_int \<lfloor>x / 10\<rfloor>" by (simp add: multiple_of_10_def mult.commute)
  then show "\<exists>k::int. x = 10 * of_int k" ..
next
  assume "\<exists>k::int. x = 10 * of_int k"
  then obtain k :: int where "x = 10 * of_int k" ..
  then show "multiple_of_10 x" by (simp add: multiple_of_10_def)
qed

text \<open>The clamp of \<open>createRide\<close> is exact, whatever the rounded formula gave.\<close>

lemma finalFare_bounds:
  "baseFare v * 2 \<le> finalFare distance duration h v \<and> finalFare distance duration h v \<le> baseFare v * 10"
  by (cases v) (simp_all add: finalFare_def Let_def)

lemma createRide_valid:
  assumes "otp_validator code"
  shows "validate now (fst (createRide rid usr v distance duration h code d))"
proof -
  have "0 \<le> baseFare v * 2" by (cases v) simp_all
  then have "0 \<le> finalFare distance duration h v"
    using finalFare_bounds [of v distance duration h] by linarith
  then show ?thesis
    using assms by (simp add: createRide_def validate_def eta_validator_def Let_def)
qed

text \<open>
  Both computations at further routes, over the three vehicle classes and surge
  levels. At 11620 m and 4 s the exact sum of \<open>getFare\<close> is 224.5, the doubles give
  224.49999999999997 and the quote is 220; at 1660 m and 417 s the exact sum of
  \<open>createRide\<close> is 60.5, the doubles give 60.49999999999999 and the fare is 60.
\<close>

lemma fare_examples:
  "getFare 11620 4 12 Car = 220"
  "finalFare 1660 417 12 Auto = 60"
  "getFare 7777 901 3 Moto = 140 \<and> finalFare 7777 901 3 Moto = 136"
  "getFare 3000 480 18 Car = 180 \<and> finalFare 3000 480 18 Car = 179"
  by code_simp+

section \<open>The persisted fare is not rounded to tens\<close>

text \<open>
  Claim C3: every fare amount, the per-class amount of \<open>getFare\<close> as well as the
  \<open>fare.amount\<close> persisted by \<open>createRide\<close>, lies between twice and ten times the
  base fare of the class and is a multiple of 10. Both paths clamp (for \<open>createRide\<close>:
  \<open>finalFare_bounds\<close>) and \<open>getFare\<close> then rounds to tens, but \<open>createRide\<close> stops
  after the clamp: for an auto, a route of 5100 m and 600 s at noon, it persists 101
  where \<open>getFare\<close> quotes 100.
\<close>

theorem createRide_fare_not_multiple_of_10:
  "fare_amount (fst (createRide 7 1 Auto 5100 600 12 ''123456'' \<lparr>rides = [], captains = []\<rparr>)) = 101
   \<and> \<not> multiple_of_10
         (fare_amount (fst (createRide 7 1 Auto 5100 600 12 ''123456'' \<lparr>rides = [], captains = []\<rparr>)))
   \<and> getFare 5100 600 12 Auto = 100"
proof -
  have f: "finalFare 5100 600 12 Auto = 101" by code_simp
  have g: "getFare 5100 600 12 Auto = 100" by code_simp
  have m: "\<not> multiple_of_10 101" by code_simp
  show ?thesis by (simp add: createRide_def Let_def f g m)
qed

section \<open>The quoted fare has no minimum distance and duration\<close>

text \<open>
  Claim C4: both fare computations raise the distance to at least 1 km and the
  duration to at least 5 minutes before the formula is applied. \<open>createRide\<close> does;
  \<open>getFare\<close> puts the raw distance and duration into the formula. For an auto, a
  route of 500 m and 60 s at eight in the morning, \<open>getFare\<close> quotes 60, the fare
  with the minimums applied is 80, and \<open>createRide\<close> persists 75.
\<close>

theorem getFare_without_minimums:
  "getFare 500 60 8 Auto = 60 \<and> spec_quote 500 60 8 Auto = 80 \<and> finalFare 500 60 8 Auto = 75"
proof -
  have g: "getFare 500 60 8 Auto = 60" by code_simp
  have f: "finalFare 500 60 8 Auto = 75" by code_simp
  have s: "spec_quote 500 60 8 Auto = 80" by code_simp
  show ?thesis using g s f by simp
qed

section \<open>Verification codes are the draw of the random source\<close>








text \<open>
  The generators refuse a length for which \<open>crypto.randomInt\<close> throws: zero, and
  fifteen digits or more, where the range exceeds \<open>2^48\<close>.
\<close>

lemma generateOTP_refuses:
  "generateOTP crypto_randomInt 0 = Inl (ApiError 500 ''Error generating OTP'')"
  "generateOTP crypto_randomInt 15 = Inl (ApiError 500 ''Error generating OTP'')"
  "getOtp crypto_randomInt 0 = Inl RandomIntRange"
  "getOtp crypto_randomInt 15 = Inl RandomIntRange"
  "generateOTP sample_source 14 = Inr ''10000000156789''"
  by (simp_all add: generateOTP_def getOtp_def randomInt_accepts_def sample_source_def
      toString_def digits.simps digit_char_def)



section \<open>A failing provider fails the route lookup of a new ride\<close>

lemma route_loop_always_failing:
  assumes "\<forall>i. provider i = None"
    and "length (coordinates pickupObj) = 2" and "length (coordinates destinationObj) = 2"
    and "cache (coordinates pickupObj, coordinates destinationObj) = None"
  shows "route_loop provider pickupObj destinationObj 0 0 cache
           = Some (Inl (Failed ''create'' RouteRetriesExhausted), cache)"
proof -
  have g: "getRouteDetails (provider i) cache pickupObj destinationObj
             = (Inl (ApiError 500 ''Failed to get route details from mapping service.''), cache)" for i
    using assms by (simp add: getRouteDetails_def)
  have l2: "route_loop provider pickupObj destinationObj i n cache
          = Some (Inl (Failed ''create'' RouteRetriesExhausted), cache)" if "n = 2" for i n
    using that by (subst route_loop.simps) (simp add: g)
  have l1: "route_loop provider pickupObj destinationObj i n cache
          = Some (Inl (Failed ''create'' RouteRetriesExhausted), cache)" if "n = 1" for i n
    using that by (subst route_loop.simps) (simp add: g l2)
  show ?thesis
    by (subst route_loop.simps) (simp add: g l1)
qed

text \<open>
  The other branches of \<open>getRouteDetails\<close> and of the loop: a cached route is
  returned as it is, an answer of the provider is returned and cached, an origin
  without two coordinates is refused, and the loop returns the first usable answer.
\<close>

lemma getRouteDetails_branches:
  "getRouteDetails provider (Map.empty((coordinates sample_pickup, coordinates sample_destination) \<mapsto> (140, 900)))
       sample_pickup sample_destination
     = (Inr (140, 900),
        Map.empty((coordinates sample_pickup, coordinates sample_destination) \<mapsto> (140, 900)))"
  "getRouteDetails (Some (5100, 600)) Map.empty sample_pickup sample_destination
     = (Inr (5100, 600),
        Map.empty((coordinates sample_pickup, coordinates sample_destination) \<mapsto> (5100, 600)))"
  "getRouteDetails provider cache (sample_pickup\<lparr>coordinates := [72]\<rparr>) sample_destination
     = (Inl (ApiError 400 ''Origin and destination with valid coordinates are required''), cache)"
  by (simp_all add: getRouteDetails_def sample_pickup_def sample_destination_def
      split: option.splits)

lemma route_loop_first_answer:
  "route_loop (\<lambda>call. Some (5100, 600)) sample_pickup sample_destination 0 0 Map.empty
     = Some (Inr (5100, 600),
             Map.empty((coordinates sample_pickup, coordinates sample_destination) \<mapsto> (5100, 600)))"
  by (subst route_loop.simps) (simp add: getRouteDetails_branches(2))

text \<open>
  Claim C8: for every pair of valid coordinates, when the provider fails on every
  attempt, the route operation still returns a haversine estimate and never raises.
  \<open>getDistanceTime\<close>, the lookup of \<open>getFare\<close>, catches the failure and estimates;
  \<open>getRouteDetails\<close>, the lookup of \<open>createRide\<close>, does not. For the valid pair
  (72, 23) and (73, 22), an empty cache and a provider that fails, \<open>getRouteDetails\<close>
  raises the \<open>ApiError\<close> of status 500, and the retry loop of \<open>createRide\<close> raises
  after its third attempt: no ride is created.
\<close>

theorem getRouteDetails_no_fallback:
  "validateCoordinates (coordinates sample_pickup)
   \<and> validateCoordinates (coordinates sample_destination)
   \<and> getRouteDetails None Map.empty sample_pickup sample_destination
       = (Inl (ApiError 500 ''Failed to get route details from mapping service.''), Map.empty)
   \<and> route_loop (\<lambda>call. None) sample_pickup sample_destination 0 0 Map.empty
       = Some (Inl (Failed ''create'' RouteRetriesExhausted), Map.empty)"
  using route_loop_always_failing [of "\<lambda>call. None" sample_pickup sample_destination Map.empty]
  by (simp add: getRouteDetails_def validateCoordinates_def sample_pickup_def
      sample_destination_def)

section \<open>Availability of a captain after each operation\<close>

lemma active_for_key: "active_for d cid rid \<Longrightarrow> \<exists>x \<in> set (rides d). fst x = rid"
  by (force simp: active_for_def findById_def split: option.splits dest: map_of_SomeD)

lemma holds_active_ride_iff: "holds_active_ride d cid \<longleftrightarrow> (\<exists>rid. active_for d cid rid)"
proof
  assume "holds_active_ride d cid"
  then show "\<exists>rid. active_for d cid rid"
    by (auto simp: holds_active_ride_def list_ex_iff)
next
  assume "\<exists>rid. active_for d cid rid"
  then obtain rid where a: "active_for d cid rid" ..
  then obtain x where "x \<in> set (rides d)" "fst x = rid" using active_for_key by blast
  then show "holds_active_ride d cid"
    using a by (auto simp: holds_active_ride_def list_ex_iff)
qed

lemma holds_other_active_ride_iff:
  "holds_other_active_ride d cid rid \<longleftrightarrow> (\<exists>k. k \<noteq> rid \<and> active_for d cid k)"
proof
  assume "holds_other_active_ride d cid rid"
  then show "\<exists>k. k \<noteq> rid \<and> active_for d cid k"
    by (auto simp: holds_other_active_ride_def list_ex_iff)
next
  assume "\<exists>k. k \<noteq> rid \<and> active_for d cid k"
  then obtain k where a: "k \<noteq> rid" "active_for d cid k" by blast
  then obtain x where "x \<in> set (rides d)" "fst x = k" using active_for_key by blast
  then show "holds_other_active_ride d cid rid"
    using a by (auto simp: holds_other_active_ride_def list_ex_iff)
qed

lemma findById_findByIdAndUpdate:
  "findById (captains (findByIdAndUpdate cid f d)) cid = map_option f (findById (captains d) cid)"
  by (simp add: findByIdAndUpdate_def findById_def update_conv' split: option.splits)

lemma active_for_findByIdAndUpdate:
  "active_for (findByIdAndUpdate k f d) cid rid = active_for d cid rid"
  by (simp add: active_for_def rides_findByIdAndUpdate)

lemma active_for_insert_ride:
  "active_for (insert_ride rid r d) cid k =
     (if k = rid then captain r = Some cid \<and> status r \<in> {Accepted, OnTheWay, InProgress}
      else active_for d cid k)"
  by (simp add: active_for_def findById_insert_ride findById_insert_ride_other)

lemma available_insert_ride: "available (insert_ride rid r d) cid = available d cid"
  by (simp add: available_def captains_insert_ride)

lemma available_findByIdAndUpdate:
  "available (findByIdAndUpdate cid f d) cid = map_option (isAvailable \<circ> f) (findById (captains d) cid)"
  by (simp add: available_def findById_findByIdAndUpdate option.map_comp)

lemma invariant_by_flag:
  "available d cid = Some b \<Longrightarrow> availability_invariant d cid \<longleftrightarrow> (b = (\<not> holds_active_ride d cid))"
  by (auto simp: availability_invariant_def available_def split: option.splits)

text \<open>Taking a ride: the captain is marked unavailable and holds the saved ride.\<close>

lemma take_ride:
  assumes "findById (captains d) cid = Some c"
    and "captain r2 = Some cid" and "status r2 = Accepted"
    and "d' = insert_ride rid r2 (findByIdAndUpdate cid (\<lambda>k. k\<lparr>isAvailable := False, lastSeen := now\<rparr>) d)
         \<or> d' = findByIdAndUpdate cid (\<lambda>k. k\<lparr>isAvailable := False, lastSeen := now\<rparr>) (insert_ride rid r2 d)"
  shows "available d' cid = Some False \<and> holds_active_ride d' cid \<and> availability_invariant d' cid"
proof -
  have av: "available d' cid = Some False"
    using assms(1,4)
    by (auto simp: available_insert_ride available_findByIdAndUpdate captains_insert_ride)
  have "active_for d' cid rid"
    using assms(2,3,4) by (auto simp: active_for_insert_ride active_for_findByIdAndUpdate)
  then have h: "holds_active_ride d' cid" by (auto simp: holds_active_ride_iff)
  show ?thesis using av h invariant_by_flag [OF av] by simp
qed

text \<open>Giving a ride up: the captain is marked available and the saved ride is terminal.\<close>

lemma give_up_ride:
  assumes "findById (captains d) cid = Some c"
    and "captain r2 = Some cid" and "status r2 \<in> {Completed, Cancelled}"
    and "d' = insert_ride rid r2 (release_captain (captain r2) now d)"
  shows "available d' cid = Some True
       \<and> (\<not> holds_other_active_ride d cid rid
            \<longrightarrow> \<not> holds_active_ride d' cid \<and> availability_invariant d' cid)"
proof -
  have d': "d' = insert_ride rid r2 (findByIdAndUpdate cid (\<lambda>k. k\<lparr>isAvailable := True, lastSeen := now\<rparr>) d)"
    using assms(2,4) by (simp add: release_captain_def)
  have av: "available d' cid = Some True"
    using assms(1) by (simp add: d' available_insert_ride available_findByIdAndUpdate)
  have "\<not> holds_active_ride d' cid \<and> availability_invariant d' cid"
    if o: "\<not> holds_other_active_ride d cid rid"
  proof -
    have "\<not> active_for d' cid k" for k
      using assms(3) o
      by (auto simp: d' active_for_insert_ride active_for_findByIdAndUpdate
          holds_other_active_ride_iff)
    then have h: "\<not> holds_active_ride d' cid" by (simp add: holds_active_ride_iff)
    show ?thesis using av h invariant_by_flag [OF av] by simp
  qed
  then show ?thesis using av by blast
qed

lemma accept_invariant:
  assumes "findById (captains d) cid = Some c"
    and "res = updateRideStatus a now rid ''accepted'' data d
         \<or> res = ride_status_handler a now (Some rid) ''accepted'' data d"
    and "uid a = cid" and "fst res = Inr r'"
  shows "available (snd res) cid = Some False \<and> holds_active_ride (snd res) cid
       \<and> availability_invariant (snd res) cid"
proof -
  obtain r s where r: "status_of_name ''accepted'' = Some s"
      "res = switch_status a now rid r s data d"
    using handler_success [OF assms(2,4)] by blast
  have s: "s = Accepted" using r(1) by (simp add: status_of_name_def)
  have cap: "utype a = Captain"
    using assms(4) r(2) by (auto simp: s switch_status_def Let_def split: if_splits)
  define r2 where "r2 = r\<lparr>status := Accepted, captain := Some cid\<rparr>"
  define d1 where "d1 = findByIdAndUpdate cid (\<lambda>k. k\<lparr>isAvailable := False, lastSeen := now\<rparr>) d"
  have "res = save_ride now rid r2 d1"
    using cap assms(3) by (simp add: r(2) s switch_status_def Let_def r2_def d1_def)
  then have "save_ride now rid r2 d1 = (Inr r', snd res)"
    using assms(4) by (metis prod.collapse)
  then have "snd res = insert_ride rid r2 d1" using save_ride_Inr by blast
  then show ?thesis
    using take_ride [OF assms(1), of r2 "snd res" rid now] by (simp add: r2_def d1_def)
qed

lemma confirm_invariant:
  assumes "findById (captains d) cid = Some c"
    and "fst (confirmRide rid cid now d) = Inr r'"
  shows "available (snd (confirmRide rid cid now d)) cid = Some False
       \<and> holds_active_ride (snd (confirmRide rid cid now d)) cid
       \<and> availability_invariant (snd (confirmRide rid cid now d)) cid"
proof -
  obtain r where r: "findById (rides d) rid = Some r" "status r = Requested" "isAvailable c"
    using assms by (auto simp: confirmRide_def split: option.splits if_splits)
  define r2 where "r2 = r\<lparr>captain := Some cid, status := Accepted,
      estimatedArrivalTime := Some (now + 10 * 60000)\<rparr>"
  have v: "validate now r2"
    using assms r
    by (auto simp: confirmRide_def Let_def r2_def save_ride_def split: if_splits)
  have "snd (confirmRide rid cid now d)
          = findByIdAndUpdate cid (\<lambda>k. k\<lparr>isAvailable := False, lastSeen := now\<rparr>)
              (insert_ride rid r2 d)"
  proof -
    have "save_ride now rid (r\<lparr>captain := Some cid, status := Accepted,
        estimatedArrivalTime := Some (now + 10 * 60000)\<rparr>) d = (Inr r2, insert_ride rid r2 d)"
      using v by (simp add: save_ride_def r2_def)
    then show ?thesis
      using r assms(1) by (simp add: confirmRide_def Let_def)
  qed
  then show ?thesis
    using take_ride [OF assms(1), of r2 "snd (confirmRide rid cid now d)" rid now]
    by (simp add: r2_def)
qed

lemma finish_invariant:
  assumes "findById (captains d) cid = Some c"
    and "res = updateRideStatus a now rid st data d
         \<or> res = ride_status_handler a now (Some rid) st data d"
    and "st = ''completed'' \<or> st = ''cancelled''"
    and "findById (rides d) rid = Some r" and "captain r = Some cid"
    and "fst res = Inr r'"
  shows "available (snd res) cid = Some True
       \<and> (\<not> holds_other_active_ride d cid rid
            \<longrightarrow> \<not> holds_active_ride (snd res) cid \<and> availability_invariant (snd res) cid)"
proof -
  obtain s where s: "status_of_name st = Some s" "res = switch_status a now rid r s data d"
    using handler_success [OF assms(2,6)] assms(4) by auto
  have t: "s = Completed \<or> s = Cancelled"
    using s(1) assms(3) by (auto simp: status_of_name_def)
  have sw: "switch_status a now rid r s data d = (Inr r', snd res)"
    using s(2) assms(6) by (metis prod.collapse)
  have "\<exists>r2. captain r2 = Some cid \<and> status r2 \<in> {Completed, Cancelled}
            \<and> snd res = insert_ride rid r2 (release_captain (captain r2) now d)"
  proof (cases "s = Completed")
    case True
    have cap: "utype a = Captain"
      using sw by (auto simp: True switch_status_def Let_def split: if_splits)
    define r2 where "r2 = r\<lparr>status := Completed, actualEndTime := Some now\<rparr>"
    have "save_ride now rid r2 (release_captain (captain r2) now d) = (Inr r', snd res)"
      using sw cap by (simp add: True switch_status_def Let_def r2_def)
    then have "snd res = insert_ride rid r2 (release_captain (captain r2) now d)"
      using save_ride_Inr by blast
    moreover have "captain r2 = Some cid \<and> status r2 \<in> {Completed, Cancelled}"
      using assms(5) by (simp add: r2_def)
    ultimately show ?thesis by blast
  next
    case False
    then have c: "s = Cancelled" using t by simp
    obtain dt where dt: "data = Some dt"
      using sw by (cases data) (auto simp: c switch_status_def Let_def)
    define r2 where "r2 = r\<lparr>status := Cancelled, cancellationReason :=
        (if truthy (req_reason dt) then req_reason dt else Some ''Cancelled by user'')\<rparr>"
    have "save_ride now rid r2 (release_captain (captain r2) now d) = (Inr r', snd res)"
      using sw by (simp add: c dt switch_status_def Let_def r2_def)
    then have "snd res = insert_ride rid r2 (release_captain (captain r2) now d)"
      using save_ride_Inr by blast
    moreover have "captain r2 = Some cid \<and> status r2 \<in> {Completed, Cancelled}"
      using assms(5) by (simp add: r2_def)
    ultimately show ?thesis by blast
  qed
  then obtain r2 where r2: "captain r2 = Some cid" "status r2 \<in> {Completed, Cancelled}"
      "snd res = insert_ride rid r2 (release_captain (captain r2) now d)"
    by blast
  show ?thesis
    by (rule give_up_ride [OF assms(1) r2])
qed

lemma connect_invariant:
  assumes "findById (captains d) cid = Some c" and "\<not> holds_active_ride d cid"
  shows "available (snd (socket_connect cid sid now d)) cid = Some True
       \<and> availability_invariant (snd (socket_connect cid sid now d)) cid"
proof -
  let ?d = "snd (socket_connect cid sid now d)"
  have d': "?d = findByIdAndUpdate cid
      (\<lambda>k. k\<lparr>socketId := Some sid, isAvailable := True, lastSeen := now\<rparr>) d"
    using assms(1) by (simp add: socket_connect_def)
  have av: "available ?d cid = Some True"
    using assms(1) by (simp add: d' available_findByIdAndUpdate)
  have "\<not> holds_active_ride ?d cid"
    using assms(2) by (simp add: d' holds_active_ride_iff active_for_findByIdAndUpdate)
  then show ?thesis using av invariant_by_flag [OF av] by simp
qed

lemma disconnect_flag:
  assumes "findById (captains d) cid = Some c"
  shows "available (socket_disconnect \<lparr>uid = cid, utype = Captain\<rparr> now d) cid = Some False"
  using assms by (simp add: socket_disconnect_def available_findByIdAndUpdate)

lemmas sample_simps =
  sample_db_def sample_ride_def sample_captain_def no_reason_def findById_def available_def
  availability_invariant_def holds_active_ride_def holds_other_active_ride_def active_for_def
  save_ride_def insert_ride_def validate_def eta_validator_def otp_validator_def is_digit_def
  findByIdAndUpdate_def release_captain_def

text \<open>
  The claim C2 as stated asks for the flag to be true whenever the captain holds no
  active ride. The \<open>disconnect\<close> handler marks a captain unavailable whatever rides
  the captain holds: a captain without any ride is unavailable after the socket closes.
\<close>

theorem disconnect_counterexample:
  "\<not> holds_active_ride (socket_disconnect sample_captain 5 (sample_db Requested None True)) 2
   \<and> available (socket_disconnect sample_captain 5 (sample_db Requested None True)) 2 = Some False
   \<and> \<not> availability_invariant (socket_disconnect sample_captain 5 (sample_db Requested None True)) 2"
  by (simp add: socket_disconnect_def sample_simps)

text \<open>
  Claim C2, amended. For every stored captain: after a successful accept, through
  either status handler or \<open>confirmRide\<close>, the accepting captain's flag is false, the
  captain holds the accepted ride and the invariant holds; after a successful
  complete or cancel, through either status handler, of a ride assigned to the
  captain, the flag is true, and when the captain holds no other active ride the
  captain holds none afterwards and the invariant holds; after a socket connect of a
  captain who holds no active ride the flag is true and the invariant holds; after a
  socket disconnect the flag is false, whether or not the captain holds an active
  ride.
\<close>

theorem availability_after_operations:
  assumes "findById (captains d) cid = Some c"
  shows "(\<forall>res r'. (res = updateRideStatus a now rid ''accepted'' data d
                     \<or> res = ride_status_handler a now (Some rid) ''accepted'' data d)
                   \<and> uid a = cid \<and> fst res = Inr r'
              \<longrightarrow> available (snd res) cid = Some False \<and> holds_active_ride (snd res) cid
                  \<and> availability_invariant (snd res) cid)
       \<and> (\<forall>r'. fst (confirmRide rid cid now d) = Inr r'
              \<longrightarrow> available (snd (confirmRide rid cid now d)) cid = Some False
                  \<and> holds_active_ride (snd (confirmRide rid cid now d)) cid
                  \<and> availability_invariant (snd (confirmRide rid cid now d)) cid)
       \<and> (\<forall>res st r r'. (res = updateRideStatus a now rid st data d
                     \<or> res = ride_status_handler a now (Some rid) st data d)
                   \<and> (st = ''completed'' \<or> st = ''cancelled'')
                   \<and> findById (rides d) rid = Some r \<and> captain r = Some cid
                   \<and> fst res = Inr r'
              \<longrightarrow> available (snd res) cid = Some True
                  \<and> (\<not> holds_other_active_ride d cid rid
                       \<longrightarrow> \<not> holds_active_ride (snd res) cid
                           \<and> availability_invariant (snd res) cid))
       \<and> (\<not> holds_active_ride d cid
              \<longrightarrow> available (snd (socket_connect cid sid now d)) cid = Some True
                  \<and> availability_invariant (snd (socket_connect cid sid now d)) cid)
       \<and> available (socket_disconnect \<lparr>uid = cid, utype = Captain\<rparr> now d) cid = Some False"
proof -
  have acc: "\<forall>res r'. (res = updateRideStatus a now rid ''accepted'' data d
                     \<or> res = ride_status_handler a now (Some rid) ''accepted'' data d)
                   \<and> uid a = cid \<and> fst res = Inr r'
              \<longrightarrow> available (snd res) cid = Some False \<and> holds_active_ride (snd res) cid
                  \<and> availability_invariant (snd res) cid"
    using accept_invariant [OF assms] by blast
  have con: "\<forall>r'. fst (confirmRide rid cid now d) = Inr r'
              \<longrightarrow> available (snd (confirmRide rid cid now d)) cid = Some False
                  \<and> holds_active_ride (snd (confirmRide rid cid now d)) cid
                  \<and> availability_invariant (snd (confirmRide rid cid now d)) cid"
    using confirm_invariant [OF assms] by blast
  have fin: "\<forall>res st r r'. (res = updateRideStatus a now rid st data d
                     \<or> res = ride_status_handler a now (Some rid) st data d)
                   \<and> (st = ''completed'' \<or> st = ''cancelled'')
                   \<and> findById (rides d) rid = Some r \<and> captain r = Some cid
                   \<and> fst res = Inr r'
              \<longrightarrow> available (snd res) cid = Some True
                  \<and> (\<not> holds_other_active_ride d cid rid
                       \<longrightarrow> \<not> holds_active_ride (snd res) cid
                           \<and> availability_invariant (snd res) cid)"
    using finish_invariant [OF assms] by blast
  have cnt: "\<not> holds_active_ride d cid
              \<longrightarrow> available (snd (socket_connect cid sid now d)) cid = Some True
                  \<and> availability_invariant (snd (socket_connect cid sid now d)) cid"
    using connect_invariant [OF assms] by blast
  show ?thesis
    using acc con fin cnt disconnect_flag [OF assms] by (intro conjI)
qed

text \<open>
  The theorem at the sample store: captain 2 accepts ride 7, confirms it, completes
  it, connects and disconnects. In \<open>two_rides_db\<close> the captain holds rides 7 and 8;
  completing ride 7 sets the flag although ride 8 is still active.
\<close>

theorem availability_after_operations_witness:
  "findById (captains (sample_db Requested None True)) 2
     = Some \<lparr>socketId = Some ''sock'', isAvailable = True, lastSeen = 0\<rparr>
   \<and> available
        (snd (ride_status_handler sample_captain 5 (Some 7) ''accepted'' (Some no_reason)
               (sample_db Requested None True))) 2 = Some False
   \<and> availability_invariant
        (snd (ride_status_handler sample_captain 5 (Some 7) ''accepted'' (Some no_reason)
               (sample_db Requested None True))) 2
   \<and> availability_invariant (snd (confirmRide 7 2 5 (sample_db Requested None True))) 2
   \<and> \<not> holds_other_active_ride (sample_db InProgress (Some 2) False) 2 7
   \<and> available
        (snd (updateRideStatus sample_captain 5 7 ''completed'' (Some no_reason)
               (sample_db InProgress (Some 2) False))) 2 = Some True
   \<and> availability_invariant
        (snd (updateRideStatus sample_captain 5 7 ''completed'' (Some no_reason)
               (sample_db InProgress (Some 2) False))) 2
   \<and> holds_other_active_ride two_rides_db 2 7
   \<and> available
        (snd (updateRideStatus sample_captain 5 7 ''completed'' (Some no_reason)
               two_rides_db)) 2 = Some True
   \<and> \<not> holds_active_ride (sample_db Completed (Some 2) False) 2
   \<and> availability_invariant (snd (socket_connect 2 ''s2'' 5 (sample_db Completed (Some 2) False))) 2
   \<and> available (socket_disconnect \<lparr>uid = 2, utype = Captain\<rparr> 5 (sample_db Requested None True)) 2
       = Some False"
  using
    availability_after_operations [of "sample_db Requested None True" 2
      "\<lparr>socketId = Some ''sock'', isAvailable = True, lastSeen = 0\<rparr>"
      sample_captain 5 7 "Some no_reason" "''s2''"]
    availability_after_operations [of "sample_db InProgress (Some 2) False" 2
      "\<lparr>socketId = Some ''sock'', isAvailable = False, lastSeen = 0\<rparr>"
      sample_captain 5 7 "Some no_reason" "''s2''"]
    availability_after_operations [of two_rides_db 2
      "\<lparr>socketId = Some ''sock'', isAvailable = False, lastSeen = 0\<rparr>"
      sample_captain 5 7 "Some no_reason" "''s2''"]
    availability_after_operations [of "sample_db Completed (Some 2) False" 2
      "\<lparr>socketId = Some ''sock'', isAvailable = False, lastSeen = 0\<rparr>"
      sample_captain 5 7 "Some no_reason" "''s2''"]
  by (simp add: sample_simps two_rides_db_def ride_status_handler_def updateRideStatus_def
      switch_status_def confirmRide_def socket_connect_def socket_disconnect_def
      status_of_name_def truthy_def Let_def)

end
